theory Spec2Isabelle
  imports Main "HOL-Library.Word" "HOL-Library.AList"
begin

unbundle bit_operations_syntax

section \<open>Outcomes of the Go code\<close>

text \<open>
  The sentinel errors of the package (\<open>errInvalidGPOSKern\<close>,
  \<open>errUnsupportedClassDefFormat\<close>, \<open>ErrMissingTable\<close>), the errors built in place
  (\<open>fmt.Errorf("unsupported GPOS coverage format %d", format)\<close>,
  \<open>errors.New("missing GPOS kerning information")\<close>,
  \<open>fmt.Errorf("table %q is not a layout table", tag)\<close>) and \<open>OtherError\<close> for whatever
  the collaborators outside these files return.
\<close>

datatype error =
    InvalidGPOSKern
  | UnsupportedClassDefFormat
  | UnsupportedCoverageFormat nat
  | MissingKerningInformation
  | MissingTable
  | NotLayoutTable
  | OtherError nat

text \<open>
  A Go call returns a value (\<open>Ok\<close>), returns a non-nil error (\<open>Err\<close>) or stops in a
  run-time panic, here always "index out of range" or "slice bounds out of range"
  (\<open>Panic\<close>). A call that never returns is \<open>None\<close> of the option type around it.
\<close>

datatype 'a result = Ok 'a | Err error | Panic

definition and_then :: "'a result \<Rightarrow> ('a \<Rightarrow> 'b result) \<Rightarrow> 'b result" where
  "and_then r f = (case r of Ok x \<Rightarrow> f x | Err e \<Rightarrow> Err e | Panic \<Rightarrow> Panic)"

definition and_then_opt :: "'a result \<Rightarrow> ('a \<Rightarrow> 'b result option) \<Rightarrow> 'b result option" where
  "and_then_opt r f = (case r of Ok x \<Rightarrow> f x | Err e \<Rightarrow> Some (Err e) | Panic \<Rightarrow> Some Panic)"

definition opt_then :: "'a result option \<Rightarrow> ('a \<Rightarrow> 'b result option) \<Rightarrow> 'b result option" where
  "opt_then r f = (case r of None \<Rightarrow> None | Some x \<Rightarrow> and_then_opt x f)"

section \<open>Bytes and big-endian reads\<close>

text \<open>
  The \<open>int\<close> values of the code are lengths, offsets and counts: sums and products
  of a few 16-bit fields and buffer lengths, never negative and far below \<open>2^63\<close>, the
  range of \<open>int\<close> on a 64-bit platform. They are natural numbers here.
\<close>

type_synonym byte = "8 word"

text \<open>
  Modelled from the spec: the type \<open>GlyphIndex\<close>, which is declared outside these
  files. The spec's glyph ids are 2-byte values; the code converts every one from
  \<open>be.Uint16\<close> and packs two of them into one \<open>uint32\<close> key as
  \<open>uint32(a) << 16 | uint32(b)\<close>: an unsigned 16-bit integer.
\<close>

type_synonym GlyphIndex = "16 word"

text \<open>
  \<open>be.Uint16(b[k:])\<close>: the slice expression panics when \<open>k > len(b)\<close>, the read when the
  slice holds fewer than two bytes.
\<close>

definition be_Uint16 :: "byte list \<Rightarrow> nat \<Rightarrow> 16 word result" where
  "be_Uint16 b k =
     (if length b < k + 2 then Panic
      else Ok (push_bit 8 (ucast (b ! k)) OR ucast (b ! (k + 1))))"

text \<open>A \<open>for i := range out\<close> loop that fills \<open>out[i]\<close> from a read that may panic.\<close>

fun for_each :: "('a \<Rightarrow> 'b result) \<Rightarrow> 'a list \<Rightarrow> 'b list result" where
  "for_each f [] = Ok []"
| "for_each f (x # xs) =
     (case f x of
        Ok y \<Rightarrow> (case for_each f xs of Ok ys \<Rightarrow> Ok (y # ys) | Err e \<Rightarrow> Err e | Panic \<Rightarrow> Panic)
      | Err e \<Rightarrow> Err e
      | Panic \<Rightarrow> Panic)"

section \<open>Coverage tables\<close>

definition fetchCoverageList :: "byte list \<Rightarrow> GlyphIndex list result" where
  "fetchCoverageList buf =
     (if length buf < 2 then Err InvalidGPOSKern
      else and_then (be_Uint16 buf 0) (\<lambda>n.
        let num = unat n in
        if length buf < 2 + num * 2 then Err InvalidGPOSKern
        else for_each (\<lambda>i. be_Uint16 buf (2 + 2 * i)) [0..<num]))"

record coverageRange =
  cr_start :: GlyphIndex
  cr_end :: GlyphIndex
  startCoverage :: "16 word"

text \<open>
  The loop \<open>for i := cr.start; i <= cr.end; i++ { body }\<close> of \<open>coverageRanges.list\<close>
  and of \<open>class2.classIDs\<close>, with \<open>i\<close> a \<open>GlyphIndex\<close>, so that \<open>i++\<close> wraps around
  at \<open>0xFFFF\<close>. \<open>body i acc\<close> is the state after one pass.
\<close>

partial_function (option) range_loop ::
  "(GlyphIndex \<Rightarrow> 's \<Rightarrow> 's) \<Rightarrow> GlyphIndex \<Rightarrow> GlyphIndex \<Rightarrow> 's \<Rightarrow> 's option" where
  "range_loop body i e acc =
     (if i \<le> e then range_loop body (i + 1) e (body i acc) else Some acc)"

declare range_loop.simps [code]

text \<open>\<open>coverageRanges.list\<close>: the body is \<open>out = append(out, i)\<close>.\<close>

fun coverageRanges_list_from :: "coverageRange list \<Rightarrow> GlyphIndex list \<Rightarrow> GlyphIndex list option" where
  "coverageRanges_list_from [] out = Some out"
| "coverageRanges_list_from (cr # crs) out =
     (case range_loop (\<lambda>i out. out @ [i]) (cr_start cr) (cr_end cr) out of
        None \<Rightarrow> None
      | Some out' \<Rightarrow> coverageRanges_list_from crs out')"

definition coverageRanges_list :: "coverageRange list \<Rightarrow> GlyphIndex list option" where
  "coverageRanges_list crs = coverageRanges_list_from crs []"

definition read_coverageRange :: "byte list \<Rightarrow> nat \<Rightarrow> coverageRange result" where
  "read_coverageRange buf i =
     and_then (be_Uint16 buf (2 + i * 6)) (\<lambda>s.
     and_then (be_Uint16 buf (2 + i * 6 + 2)) (\<lambda>e.
     and_then (be_Uint16 buf (2 + i * 6 + 4)) (\<lambda>c.
       Ok \<lparr>cr_start = s, cr_end = e, startCoverage = c\<rparr>)))"

definition fetchCoverageRange :: "byte list \<Rightarrow> GlyphIndex list result option" where
  "fetchCoverageRange buf =
     (if length buf < 2 then Some (Err InvalidGPOSKern)
      else and_then_opt (be_Uint16 buf 0) (\<lambda>n.
        let num = unat n in
        if length buf < 2 + num * 6 then Some (Err InvalidGPOSKern)
        else and_then_opt (for_each (read_coverageRange buf) [0..<num]) (\<lambda>crs.
          map_option Ok (coverageRanges_list crs))))"

text \<open>
  \<open>fetchCoverage(buf, offset)\<close>; \<open>offset\<close> is \<open>int(coverageOffset)\<close> of a \<open>uint16\<close>,
  never negative.
\<close>

definition fetchCoverage :: "byte list \<Rightarrow> nat \<Rightarrow> GlyphIndex list result option" where
  "fetchCoverage buf offset =
     (if length buf < offset + 2 then Some (Err InvalidGPOSKern)
      else let buf' = drop offset buf in
        and_then_opt (be_Uint16 buf' 0) (\<lambda>format.
          if format = 1 then Some (fetchCoverageList (drop 2 buf'))
          else if format = 2 then fetchCoverageRange (drop 2 buf')
          else Some (Err (UnsupportedCoverageFormat (unat format)))))"

section \<open>Pair adjustment, format 1\<close>

text \<open>
  \<open>simpleKerns\<close> is a Go map from the packed pair \<open>uint32(a) << 16 | uint32(b)\<close> to an
  \<open>int16\<close>; an association list whose keys stay distinct (\<open>AList.update\<close> is the
  assignment \<open>out[k] = v\<close>), so that \<open>len(simples) == 0\<close> is \<open>simples = []\<close>. The \<open>int16\<close>
  keeps the 16 bits read; \<open>sint\<close> gives its value.
\<close>

type_synonym simpleKerns = "(32 word \<times> 16 word) list"

text \<open>The loop of \<open>parsePairPosFormat1\<close> that finds the largest PairSet offset.\<close>

fun lastPairSetOffset_loop :: "byte list \<Rightarrow> nat list \<Rightarrow> nat \<Rightarrow> nat result" where
  "lastPairSetOffset_loop buf [] lastPairSetOffset = Ok lastPairSetOffset"
| "lastPairSetOffset_loop buf (n # ns) lastPairSetOffset =
     (case be_Uint16 buf (10 + n * 2) of
        Ok p \<Rightarrow>
          (let pairOffset = unat p in
           lastPairSetOffset_loop buf ns
             (if pairOffset > lastPairSetOffset then pairOffset else lastPairSetOffset))
      | Err e \<Rightarrow> Err e
      | Panic \<Rightarrow> Panic)"

text \<open>The inner loop of \<open>fetchPairPosGlyph\<close>, over \<open>i < count\<close>.\<close>

fun pairValue_loop :: "byte list \<Rightarrow> nat \<Rightarrow> 32 word \<Rightarrow> nat list \<Rightarrow> simpleKerns \<Rightarrow> simpleKerns result" where
  "pairValue_loop glyphs offset highByte [] out = Ok out"
| "pairValue_loop glyphs offset highByte (i # is) out =
     (case be_Uint16 glyphs (offset + 2 + i * 4) of
        Ok b \<Rightarrow>
          (case be_Uint16 glyphs (offset + 2 + i * 4 + 2) of
             Ok v \<Rightarrow> pairValue_loop glyphs offset highByte is (AList.update (highByte OR ucast b) v out)
           | Err e \<Rightarrow> Err e
           | Panic \<Rightarrow> Panic)
      | Err e \<Rightarrow> Err e
      | Panic \<Rightarrow> Panic)"

text \<open>The outer loop of \<open>fetchPairPosGlyph\<close>, over \<open>idx, a := range coverage\<close>.\<close>

fun fetchPairPosGlyph_loop ::
  "(nat \<times> GlyphIndex) list \<Rightarrow> nat \<Rightarrow> byte list \<Rightarrow> simpleKerns \<Rightarrow> simpleKerns result" where
  "fetchPairPosGlyph_loop [] num glyphs out = Ok out"
| "fetchPairPosGlyph_loop ((idx, a) # rest) num glyphs out =
     (if idx \<ge> num then Err InvalidGPOSKern
      else case be_Uint16 glyphs (10 + idx * 2) of
        Ok off \<Rightarrow>
          (let offset = unat off in
           if offset + 1 \<ge> length glyphs then Err InvalidGPOSKern
           else case be_Uint16 glyphs offset of
             Ok cnt \<Rightarrow>
               (case pairValue_loop glyphs offset (push_bit 16 (ucast a)) [0..<unat cnt] out of
                  Ok out' \<Rightarrow> fetchPairPosGlyph_loop rest num glyphs out'
                | Err e \<Rightarrow> Err e
                | Panic \<Rightarrow> Panic)
           | Err e \<Rightarrow> Err e
           | Panic \<Rightarrow> Panic)
      | Err e \<Rightarrow> Err e
      | Panic \<Rightarrow> Panic)"

definition fetchPairPosGlyph ::
  "GlyphIndex list \<Rightarrow> nat \<Rightarrow> byte list \<Rightarrow> simpleKerns \<Rightarrow> simpleKerns result" where
  "fetchPairPosGlyph coverage num glyphs out =
     fetchPairPosGlyph_loop (List.enumerate 0 coverage) num glyphs out"

text \<open>
  \<open>parsePairPosFormat1(buf, coverage, out)\<close> writes into the map \<open>out\<close> and returns an
  error or nil; the model returns the map after the call. On an error \<open>parseKern\<close>
  drops the map, so the entries written before the error are not kept. The test
  \<open>valueFormat1 != 0x04 || valueFormat2 != 0x00\<close> is written as Go evaluates it, the
  left operand first.
\<close>

definition parsePairPosFormat1 ::
  "byte list \<Rightarrow> GlyphIndex list \<Rightarrow> simpleKerns \<Rightarrow> simpleKerns result" where
  "parsePairPosFormat1 buf coverage out =
     (if length buf < 10 then Err InvalidGPOSKern
      else and_then (be_Uint16 buf 4) (\<lambda>valueFormat1.
           and_then (be_Uint16 buf 6) (\<lambda>valueFormat2.
           and_then (be_Uint16 buf 8) (\<lambda>n.
        let nPairs = unat n in
        if valueFormat1 \<noteq> 4 then Ok out
        else if valueFormat2 \<noteq> 0 then Ok out
        else if length buf < 10 + nPairs * 2 then Err InvalidGPOSKern
        else and_then (lastPairSetOffset_loop buf [0..<nPairs] 0) (\<lambda>lastPairSetOffset.
          if length buf < lastPairSetOffset + 2 then Err InvalidGPOSKern
          else and_then (be_Uint16 buf lastPairSetOffset) (\<lambda>c.
            let pairValueCount = unat c;
                lastPairSetLength = 2 + pairValueCount * 4;
                length' = lastPairSetOffset + lastPairSetLength
            in if length buf < length' then Err InvalidGPOSKern
               else fetchPairPosGlyph coverage nPairs buf out))))))"

section \<open>Class definitions\<close>

text \<open>
  A Go map read at a key it does not hold gives the zero value: \<open>c.class1[left]\<close> is 0
  for a glyph with no entry, and \<open>_, found := c.coverage[left]\<close> is false.
\<close>

definition map_index :: "('k \<times> nat) list \<Rightarrow> 'k \<Rightarrow> nat" where
  "map_index m k = (case map_of m k of None \<Rightarrow> 0 | Some v \<Rightarrow> v)"

definition map_found :: "('k \<times> 'v) list \<Rightarrow> 'k \<Rightarrow> bool" where
  "map_found m k = (case map_of m k of None \<Rightarrow> False | Some v \<Rightarrow> True)"

record classRangeRecord =
  crr_start :: GlyphIndex
  crr_end :: GlyphIndex
  targetClassID :: nat

text \<open>
  The interface \<open>class\<close> has two implementations: \<open>class1\<close> (\<open>startGlyph\<close>,
  \<open>targetClassIDs\<close>) and \<open>class2\<close> (a slice of range records).
\<close>

datatype "class" = Class1 GlyphIndex "nat list" | Class2 "classRangeRecord list"

text \<open>
  \<open>class1.classIDs\<close>: \<open>out[c.startGlyph+GlyphIndex(i)] = target\<close>; the conversion keeps
  the low 16 bits of \<open>i\<close> and the sum wraps around.
\<close>

fun class1_classIDs_loop ::
  "GlyphIndex \<Rightarrow> (nat \<times> nat) list \<Rightarrow> (GlyphIndex \<times> nat) list \<Rightarrow> (GlyphIndex \<times> nat) list" where
  "class1_classIDs_loop startGlyph [] out = out"
| "class1_classIDs_loop startGlyph ((i, target) # rest) out =
     class1_classIDs_loop startGlyph rest (AList.update (startGlyph + of_nat i) target out)"

text \<open>\<open>class2.classIDs\<close>: the body of the inner loop is \<open>out[i] = cr.targetClassID\<close>.\<close>

fun class2_classIDs_loop ::
  "classRangeRecord list \<Rightarrow> (GlyphIndex \<times> nat) list \<Rightarrow> (GlyphIndex \<times> nat) list option" where
  "class2_classIDs_loop [] out = Some out"
| "class2_classIDs_loop (cr # crs) out =
     (case range_loop (\<lambda>i out. AList.update i (targetClassID cr) out) (crr_start cr) (crr_end cr) out of
        None \<Rightarrow> None
      | Some out' \<Rightarrow> class2_classIDs_loop crs out')"

fun classIDs :: "class \<Rightarrow> (GlyphIndex \<times> nat) list option" where
  "classIDs (Class1 startGlyph targetClassIDs) =
     Some (class1_classIDs_loop startGlyph (List.enumerate 0 targetClassIDs) [])"
| "classIDs (Class2 c) = class2_classIDs_loop c []"

definition fetchClassLookupFormat1 :: "byte list \<Rightarrow> class result" where
  "fetchClassLookupFormat1 buf =
     (if length buf < 6 then Err InvalidGPOSKern
      else and_then (be_Uint16 buf 2) (\<lambda>startGI.
           and_then (be_Uint16 buf 4) (\<lambda>n.
        let num = unat n in
        if length buf < 6 + num * 2 then Err InvalidGPOSKern
        else and_then (for_each (\<lambda>i. and_then (be_Uint16 buf (6 + i * 2)) (\<lambda>v. Ok (unat v))) [0..<num])
               (\<lambda>classIDs. Ok (Class1 startGI classIDs)))))"

definition read_classRangeRecord :: "byte list \<Rightarrow> nat \<Rightarrow> classRangeRecord result" where
  "read_classRangeRecord buf i =
     and_then (be_Uint16 buf (4 + i * 6)) (\<lambda>s.
     and_then (be_Uint16 buf (4 + i * 6 + 2)) (\<lambda>e.
     and_then (be_Uint16 buf (4 + i * 6 + 4)) (\<lambda>c.
       Ok \<lparr>crr_start = s, crr_end = e, targetClassID = unat c\<rparr>)))"

definition fetchClassLookupFormat2 :: "byte list \<Rightarrow> class result" where
  "fetchClassLookupFormat2 buf =
     (if length buf < 4 then Err InvalidGPOSKern
      else and_then (be_Uint16 buf 2) (\<lambda>n.
        let num = unat n in
        if length buf < 4 + num * 6 then Err InvalidGPOSKern
        else and_then (for_each (read_classRangeRecord buf) [0..<num]) (\<lambda>out. Ok (Class2 out))))"

definition fetchClassLookup :: "byte list \<Rightarrow> nat \<Rightarrow> class result" where
  "fetchClassLookup buf offset =
     (if length buf < offset + 2 then Err InvalidGPOSKern
      else let buf' = drop offset buf in
        and_then (be_Uint16 buf' 0) (\<lambda>format.
          if format = 1 then fetchClassLookupFormat1 buf'
          else if format = 2 then fetchClassLookupFormat2 buf'
          else Err UnsupportedClassDefFormat))"

section \<open>Pair adjustment, format 2\<close>

text \<open>
  \<open>classKerns\<close>. The Go maps are association lists with distinct keys; \<open>coverage\<close> is
  a \<open>map[GlyphIndex]struct{}\<close>. \<open>kerns\<close> holds \<open>int16\<close> values, kept as the 16 bits
  read. The zero value \<open>classKerns{}\<close> has nil maps, a nil slice and \<open>numClass2 = 0\<close>.
\<close>

record classKerns =
  coverage :: "(GlyphIndex \<times> unit) list"
  class1 :: "(GlyphIndex \<times> nat) list"
  class2 :: "(GlyphIndex \<times> nat) list"
  numClass2 :: nat
  kerns :: "16 word list"

definition classKerns_zero :: classKerns where
  "classKerns_zero = \<lparr>coverage = [], class1 = [], class2 = [], numClass2 = 0, kerns = []\<rparr>"

text \<open>
  \<open>classKerns.KernPair\<close>: \<open>(0, false)\<close> for a left glyph outside the coverage;
  otherwise \<open>c.kerns[idxb+idxa*c.numClass2]\<close>, which panics when the index is not
  below \<open>len(c.kerns)\<close>.
\<close>

definition KernPair :: "classKerns \<Rightarrow> GlyphIndex \<Rightarrow> GlyphIndex \<Rightarrow> (16 word \<times> bool) result" where
  "KernPair c left right =
     (if \<not> map_found (coverage c) left then Ok (0, False)
      else let idxa = map_index (class1 c) left;
               idxb = map_index (class2 c) right
           in if idxb + idxa * numClass2 c < length (kerns c)
              then Ok (kerns c ! (idxb + idxa * numClass2 c), True)
              else Panic)"

text \<open>
  The two loops of \<open>fetchPairPosClass\<close> that fill \<open>kerns\<close>:
  \<open>index := j + i*num2; kerns[index] = int16(be.Uint16(buf[index*2:]))\<close>.
\<close>

fun kerns_inner_loop :: "byte list \<Rightarrow> nat \<Rightarrow> nat \<Rightarrow> nat list \<Rightarrow> 16 word list \<Rightarrow> 16 word list result" where
  "kerns_inner_loop buf num2 i [] ks = Ok ks"
| "kerns_inner_loop buf num2 i (j # js) ks =
     (let index = j + i * num2 in
      if index \<ge> length ks then Panic
      else case be_Uint16 buf (index * 2) of
        Ok v \<Rightarrow> kerns_inner_loop buf num2 i js (ks[index := v])
      | Err e \<Rightarrow> Err e
      | Panic \<Rightarrow> Panic)"

fun kerns_outer_loop :: "byte list \<Rightarrow> nat \<Rightarrow> nat \<Rightarrow> nat list \<Rightarrow> 16 word list \<Rightarrow> 16 word list result" where
  "kerns_outer_loop buf num1 num2 [] ks = Ok ks"
| "kerns_outer_loop buf num1 num2 (i # is) ks =
     (case kerns_inner_loop buf num2 i [0..<num2] ks of
        Ok ks' \<Rightarrow> kerns_outer_loop buf num1 num2 is ks'
      | Err e \<Rightarrow> Err e
      | Panic \<Rightarrow> Panic)"

fun coverage_loop :: "GlyphIndex list \<Rightarrow> (GlyphIndex \<times> unit) list \<Rightarrow> (GlyphIndex \<times> unit) list" where
  "coverage_loop [] covmap = covmap"
| "coverage_loop (c # cs) covmap = coverage_loop cs (AList.update c () covmap)"

definition fetchPairPosClass ::
  "byte list \<Rightarrow> GlyphIndex list \<Rightarrow> nat \<Rightarrow> nat \<Rightarrow> class \<Rightarrow> class \<Rightarrow> classKerns result option" where
  "fetchPairPosClass buf cov num1 num2 cdef1 cdef2 =
     (if length buf < num1 * num2 * 2 then Some (Err InvalidGPOSKern)
      else and_then_opt (kerns_outer_loop buf num1 num2 [0..<num1] (replicate (num1 * num2) 0)) (\<lambda>ks.
        let covmap = coverage_loop cov [] in
        case classIDs cdef1 of
          None \<Rightarrow> None
        | Some ids1 \<Rightarrow>
            (case classIDs cdef2 of
               None \<Rightarrow> None
             | Some ids2 \<Rightarrow>
                 Some (Ok \<lparr>coverage = covmap, class1 = ids1, class2 = ids2,
                           numClass2 = num2, kerns = ks\<rparr>))))"

definition parsePairPosFormat2 :: "byte list \<Rightarrow> GlyphIndex list \<Rightarrow> classKerns result option" where
  "parsePairPosFormat2 buf cov =
     (if length buf < 16 then Some (Err InvalidGPOSKern)
      else and_then_opt (be_Uint16 buf 4) (\<lambda>valueFormat1.
           and_then_opt (be_Uint16 buf 6) (\<lambda>valueFormat2.
        if valueFormat1 \<noteq> 4 then Some (Ok classKerns_zero)
        else if valueFormat2 \<noteq> 0 then Some (Ok classKerns_zero)
        else and_then_opt (be_Uint16 buf 8) (\<lambda>o1.
             and_then_opt (be_Uint16 buf 10) (\<lambda>o2.
             and_then_opt (be_Uint16 buf 12) (\<lambda>n1.
             and_then_opt (be_Uint16 buf 14) (\<lambda>n2.
             and_then_opt (fetchClassLookup buf (unat o1)) (\<lambda>cdef1.
             and_then_opt (fetchClassLookup buf (unat o2)) (\<lambda>cdef2.
               fetchPairPosClass (drop 16 buf) cov (unat n1) (unat n2) cdef1 cdef2)))))))))"

section \<open>The layout table and \<open>parseKern\<close>\<close>

text \<open>
  Modelled from the spec: the types \<open>TableLayout\<close> and \<open>Lookup\<close>, which are declared
  outside these files. A layout table is scanned lookup by lookup; \<open>parseKern\<close> reads
  three fields of a lookup: \<open>Type\<close>, compared with 2 (pair adjustment);
  \<open>subtableOffsets\<close>, unsigned offsets converted with \<open>int(subtableOffset)\<close>; and
  \<open>data\<close>, the bytes of the lookup, in which the offsets are counted.
\<close>

record Lookup =
  Type :: nat
  subtableOffsets :: "nat list"
  data :: "byte list"

record TableLayout =
  Lookups :: "Lookup list"

text \<open>
  The result \<open>Kerns\<close> of \<open>parseKern\<close> is a \<open>kernUnions\<close>: slot 0 is the simple source,
  the later slots are the class sources in the order of their subtables. While the
  subtables are scanned, \<open>classes\<close> is \<open>kernUnions{nil}\<close> followed by the class sources
  appended so far; the model carries the appended part, so \<open>len(classes) == 1\<close> is
  \<open>classes = []\<close>.
\<close>

datatype kernSource = SimpleKerns simpleKerns | ClassKerns classKerns

type_synonym kernUnions = "kernSource list"

text \<open>The body of the loop over \<open>lookup.subtableOffsets\<close>.\<close>

definition parseKern_subtable ::
  "byte list \<Rightarrow> nat \<Rightarrow> simpleKerns \<times> classKerns list \<Rightarrow> (simpleKerns \<times> classKerns list) result option" where
  "parseKern_subtable b0 subtableOffset st =
     (case st of (simples, classes) \<Rightarrow>
      if length b0 < 4 + subtableOffset then Some (Err InvalidGPOSKern)
      else let b = drop subtableOffset b0 in
        and_then_opt (be_Uint16 b 0) (\<lambda>format.
        and_then_opt (be_Uint16 b 2) (\<lambda>coverageOffset.
        opt_then (fetchCoverage b (unat coverageOffset)) (\<lambda>cov.
          if format = 1 then
            Some (and_then (parsePairPosFormat1 b cov simples) (\<lambda>simples'. Ok (simples', classes)))
          else if format = 2 then
            opt_then (parsePairPosFormat2 b cov) (\<lambda>cl. Some (Ok (simples, classes @ [cl])))
          else Some (Ok (simples, classes))))))"

fun parseKern_subtables ::
  "byte list \<Rightarrow> nat list \<Rightarrow> simpleKerns \<times> classKerns list \<Rightarrow> (simpleKerns \<times> classKerns list) result option" where
  "parseKern_subtables b0 [] st = Some (Ok st)"
| "parseKern_subtables b0 (subtableOffset # rest) st =
     (case parseKern_subtable b0 subtableOffset st of
        None \<Rightarrow> None
      | Some (Ok st') \<Rightarrow> parseKern_subtables b0 rest st'
      | Some (Err e) \<Rightarrow> Some (Err e)
      | Some Panic \<Rightarrow> Some Panic)"

fun parseKern_lookups ::
  "Lookup list \<Rightarrow> simpleKerns \<times> classKerns list \<Rightarrow> (simpleKerns \<times> classKerns list) result option" where
  "parseKern_lookups [] st = Some (Ok st)"
| "parseKern_lookups (lookup # rest) st =
     (if Type lookup = 2 then
        (case parseKern_subtables (data lookup) (subtableOffsets lookup) st of
           None \<Rightarrow> None
         | Some (Ok st') \<Rightarrow> parseKern_lookups rest st'
         | Some (Err e) \<Rightarrow> Some (Err e)
         | Some Panic \<Rightarrow> Some Panic)
      else parseKern_lookups rest st)"

definition parseKern :: "TableLayout \<Rightarrow> kernUnions result option" where
  "parseKern t =
     opt_then (parseKern_lookups (Lookups t) ([], [])) (\<lambda>st.
       case st of (simples, classes) \<Rightarrow>
         if classes = [] \<and> simples = [] then Some (Err MissingKerningInformation)
         else Some (Ok (SimpleKerns simples # map ClassKerns classes)))"

section \<open>The table directory\<close>

text \<open>
  Modelled from the spec: the type \<open>Tag\<close> and the constants \<open>TagGpos\<close> and \<open>tagKern\<close>,
  which are declared outside these files. A tag is a four-byte identifier, ordered by
  its big-endian number; the two constants are the tags \<open>GPOS\<close> and \<open>kern\<close>.
\<close>

type_synonym Tag = "32 word"

definition TagGpos :: Tag where
  "TagGpos = 0x47504F53"

definition tagKern :: Tag where
  "tagKern = 0x6B65726E"

text \<open>
  Modelled from the spec: the interface \<open>Table\<close>, which is declared outside these
  files. A parsed table is a \<open>*TableLayout\<close> or a table of another kind
  (\<open>*TableHead\<close>, \<open>*TableName\<close>, ...), of which the code modelled here reads nothing.
\<close>

datatype Table = LayoutTable TableLayout | OtherTable "byte list"

text \<open>\<open>tableSection\<close>; the field \<open>table\<close> is nil (\<open>None\<close>) until the table is parsed.\<close>

record tableSection =
  s_tag :: Tag
  s_table :: "Table option"
  s_offset :: "32 word"
  s_length :: "32 word"
  s_zLength :: "32 word"

text \<open>
  \<open>Font\<close>. \<open>tables\<close> is a Go map from tags to pointers to sections, one section per
  tag: an association list with distinct keys, and the assignment \<open>s.table = t\<close>
  through the pointer is an update of the entry. The field \<open>file\<close> is read by the
  collaborators only and belongs to the world \<open>'w\<close> below.
\<close>

record Font =
  scalerType :: Tag
  tables :: "(Tag \<times> tableSection) list"

text \<open>
  The collaborators that are not in these files: \<open>font.parseTable(s)\<close> and
  \<open>font.findTableBuffer(s)\<close>, which read the file of the font, and
  \<open>parseKernTable(buf)\<close>. They are parameters: a collaborator that reads the file
  takes the state \<open>'w\<close> of the world outside the font (the file, or the call counter
  of a test double) and returns it changed. \<open>parseTable\<close> returns an error or a
  table that is not nil. \<open>'k\<close> is the type of the legacy kern table.
\<close>

record ('w, 'k) collaborators =
  parseTable :: "tableSection \<Rightarrow> 'w \<Rightarrow> Table result \<times> 'w"
  findTableBuffer :: "tableSection \<Rightarrow> 'w \<Rightarrow> byte list result \<times> 'w"
  parseKernTable :: "byte list \<Rightarrow> 'k result"

text \<open>\<open>Font.Table(tag)\<close>, on the font and the world, returning both.\<close>

definition Table :: "('w, 'k) collaborators \<Rightarrow> Tag \<Rightarrow> Font \<times> 'w \<Rightarrow> Table result \<times> (Font \<times> 'w)" where
  "Table env tg st =
     (case st of (font, w) \<Rightarrow>
      case map_of (tables font) tg of
        None \<Rightarrow> (Err MissingTable, (font, w))
      | Some s \<Rightarrow>
          (case s_table s of
             Some t \<Rightarrow> (Ok t, (font, w))
           | None \<Rightarrow>
               (case parseTable env s w of
                  (Ok t, w') \<Rightarrow>
                    (Ok t, (font\<lparr>tables := AList.update tg (s\<lparr>s_table := Some t\<rparr>) (tables font)\<rparr>, w'))
                | (Err e, w') \<Rightarrow> (Err e, (font, w'))
                | (Panic, w') \<Rightarrow> (Panic, (font, w')))))"

text \<open>\<open>Font.TableLayout(tag)\<close> and \<open>Font.GposTable()\<close>.\<close>

definition Font_TableLayout ::
  "('w, 'k) collaborators \<Rightarrow> Tag \<Rightarrow> Font \<times> 'w \<Rightarrow> TableLayout result \<times> (Font \<times> 'w)" where
  "Font_TableLayout env tg st =
     (case Table env tg st of
        (Ok (LayoutTable l), st') \<Rightarrow> (Ok l, st')
      | (Ok (OtherTable x), st') \<Rightarrow> (Err NotLayoutTable, st')
      | (Err e, st') \<Rightarrow> (Err e, st')
      | (Panic, st') \<Rightarrow> (Panic, st'))"

definition GposTable :: "('w, 'k) collaborators \<Rightarrow> Font \<times> 'w \<Rightarrow> TableLayout result \<times> (Font \<times> 'w)" where
  "GposTable env st = Font_TableLayout env TagGpos st"

text \<open>
  \<open>Kerns\<close> is an interface: the \<open>kernUnions\<close> of \<open>parseKern\<close> or the value of
  \<open>parseKernTable\<close>.
\<close>

datatype 'k Kerns = GposKerns kernUnions | LegacyKerns 'k

definition gposKerning ::
  "('w, 'k) collaborators \<Rightarrow> Font \<times> 'w \<Rightarrow> ('k Kerns result \<times> (Font \<times> 'w)) option" where
  "gposKerning env st =
     (case GposTable env st of
        (Ok gpos, st') \<Rightarrow>
          (case parseKern gpos of
             None \<Rightarrow> None
           | Some (Ok ku) \<Rightarrow> Some (Ok (GposKerns ku), st')
           | Some (Err e) \<Rightarrow> Some (Err e, st')
           | Some Panic \<Rightarrow> Some (Panic, st'))
      | (Err e, st') \<Rightarrow> Some (Err e, st')
      | (Panic, st') \<Rightarrow> Some (Panic, st'))"

definition kernKerning ::
  "('w, 'k) collaborators \<Rightarrow> Font \<times> 'w \<Rightarrow> 'k Kerns result \<times> (Font \<times> 'w)" where
  "kernKerning env st =
     (case st of (font, w) \<Rightarrow>
      case map_of (tables font) tagKern of
        None \<Rightarrow> (Err MissingTable, (font, w))
      | Some section \<Rightarrow>
          (case findTableBuffer env section w of
             (Ok buf, w') \<Rightarrow>
               (case parseKernTable env buf of
                  Ok k \<Rightarrow> (Ok (LegacyKerns k), (font, w'))
                | Err e \<Rightarrow> (Err e, (font, w'))
                | Panic \<Rightarrow> (Panic, (font, w')))
           | (Err e, w') \<Rightarrow> (Err e, (font, w'))
           | (Panic, w') \<Rightarrow> (Panic, (font, w'))))"

text \<open>
  \<open>Font.KernTable(kernFirst)\<close>: the second source is asked when the first returned
  \<open>err != nil\<close>; a panic or a call that does not return is not an error value.
\<close>

definition KernTable ::
  "('w, 'k) collaborators \<Rightarrow> bool \<Rightarrow> Font \<times> 'w \<Rightarrow> ('k Kerns result \<times> (Font \<times> 'w)) option" where
  "KernTable env kernFirst st =
     (if kernFirst then
        (case kernKerning env st of
           (Err e, st') \<Rightarrow> gposKerning env st'
         | (Ok k, st') \<Rightarrow> Some (Ok k, st')
         | (Panic, st') \<Rightarrow> Some (Panic, st'))
      else
        (case gposKerning env st of
           None \<Rightarrow> None
         | Some (Err e, st') \<Rightarrow> Some (kernKerning env st')
         | Some (Ok k, st') \<Rightarrow> Some (Ok k, st')
         | Some (Panic, st') \<Rightarrow> Some (Panic, st')))"

section \<open>Sequences of calls\<close>

text \<open>
  The state after the calls \<open>font.Table(tg)\<close> for the tags of a list, in order,
  whatever each call returns.
\<close>

fun Table_calls :: "('w, 'k) collaborators \<Rightarrow> Tag list \<Rightarrow> Font \<times> 'w \<Rightarrow> Font \<times> 'w" where
  "Table_calls env [] st = st"
| "Table_calls env (tg # tgs) st = Table_calls env tgs (snd (Table env tg st))"

text \<open>The cache slot of a tag: \<open>font.tables[tg].table\<close>, nil when the tag is absent.\<close>

definition cached :: "Font \<Rightarrow> Tag \<Rightarrow> Table option" where
  "cached font tg = (case map_of (tables font) tg of None \<Rightarrow> None | Some s \<Rightarrow> s_table s)"

section \<open>Concrete inputs\<close>

text \<open>
  A test double for the collaborators: the world is the number of decodes run so
  far; \<open>parseTable\<close> counts and fails, \<open>findTableBuffer\<close> returns an empty buffer,
  \<open>parseKernTable\<close> returns the legacy table \<open>7\<close>.
\<close>

definition failing_double :: "(nat, nat) collaborators" where
  "failing_double =
     \<lparr>parseTable = (\<lambda>s w. (Err (OtherError 1), Suc w)),
      findTableBuffer = (\<lambda>s w. (Ok [], w)),
      parseKernTable = (\<lambda>b. Ok 7)\<rparr>"

text \<open>The same double with a \<open>parseKernTable\<close> that fails.\<close>

definition failing_kern_double :: "(nat, nat) collaborators" where
  "failing_kern_double =
     \<lparr>parseTable = (\<lambda>s w. (Err (OtherError 1), Suc w)),
      findTableBuffer = (\<lambda>s w. (Ok [], w)),
      parseKernTable = (\<lambda>b. Err (OtherError 2))\<rparr>"

text \<open>A double whose \<open>parseTable\<close> counts and succeeds with an empty layout table.\<close>

definition counting_double :: "(nat, nat) collaborators" where
  "counting_double =
     \<lparr>parseTable = (\<lambda>s w. (Ok (LayoutTable \<lparr>Lookups = []\<rparr>), Suc w)),
      findTableBuffer = (\<lambda>s w. (Ok [], w)),
      parseKernTable = (\<lambda>b. Ok 7)\<rparr>"

definition unparsed_section :: "Tag \<Rightarrow> tableSection" where
  "unparsed_section tg =
     \<lparr>s_tag = tg, s_table = None, s_offset = 0, s_length = 0, s_zLength = 0\<rparr>"

text \<open>A font whose \<open>GPOS\<close> table is not parsed yet.\<close>

definition unparsed_font :: Font where
  "unparsed_font = \<lparr>scalerType = 0, tables = [(TagGpos, unparsed_section TagGpos)]\<rparr>"

text \<open>The same font after its \<open>GPOS\<close> table was parsed by \<open>counting_double\<close>.\<close>

definition parsed_font :: Font where
  "parsed_font =
     \<lparr>scalerType = 0,
      tables = [(TagGpos, (unparsed_section TagGpos)\<lparr>s_table := Some (LayoutTable \<lparr>Lookups = []\<rparr>)\<rparr>)]\<rparr>"

text \<open>
  A pair adjustment subtable of format 1 cut after eight bytes: format 1, coverage at
  offset 4, there a coverage of format 1 with no glyph. The coverage decodes; the
  subtable is shorter than its header of ten bytes.
\<close>

definition truncated_subtable :: "byte list" where
  "truncated_subtable = [0, 1, 0, 4, 0, 1, 0, 0]"

text \<open>A layout table with one lookup of type 2 whose one subtable, at offset 0, is \<open>b\<close>.\<close>

definition layout_of :: "byte list \<Rightarrow> TableLayout" where
  "layout_of b = \<lparr>Lookups = [\<lparr>Type = 2, subtableOffsets = [0], data = b\<rparr>]\<rparr>"

text \<open>
  A font with a parsed \<open>GPOS\<close> table holding that subtable, and a \<open>kern\<close> table.
\<close>

definition malformed_gpos_font :: Font where
  "malformed_gpos_font =
     \<lparr>scalerType = 0,
      tables =
        [(TagGpos,
          \<lparr>s_tag = TagGpos,
           s_table = Some (LayoutTable (layout_of truncated_subtable)),
           s_offset = 0, s_length = 0, s_zLength = 0\<rparr>),
         (tagKern, unparsed_section tagKern)]\<rparr>"

text \<open>
  A pair adjustment subtable of format 2 whose value formats are (4, 4): X-advance
  for both glyphs, which the parser does not support. Coverage at offset 16: format
  1, one glyph, 5.
\<close>

definition gated_format2_subtable :: "byte list" where
  "gated_format2_subtable =
     [0, 2, 0, 16, 0, 4, 0, 4, 0, 0, 0, 0, 0, 0, 0, 0,
      0, 1, 0, 1, 0, 5]"

text \<open>The same header as a subtable of format 1, with no PairSet; coverage at offset 10.\<close>

definition gated_format1_subtable :: "byte list" where
  "gated_format1_subtable =
     [0, 1, 0, 10, 0, 4, 0, 4, 0, 0,
      0, 1, 0, 1, 0, 5]"

text \<open>
  A pair adjustment subtable of format 1 with the supported value formats (4, 0)
  and two PairSets: the one at offset 14 declares nine records, the one at offset
  16 declares none. Coverage at offset 18: format 1, glyphs 5 and 6. The buffer is
  26 bytes long.
\<close>

definition oversized_pairset_subtable :: "byte list" where
  "oversized_pairset_subtable =
     [0, 1, 0, 18, 0, 4, 0, 0, 0, 2, 0, 14, 0, 16,
      0, 9,
      0, 0,
      0, 1, 0, 2, 0, 5, 0, 6]"

text \<open>
  The same subtable with a coverage of three glyphs, 5, 6 and 7, one more than its
  two PairSets. The buffer is 28 bytes long.
\<close>

definition long_coverage_subtable :: "byte list" where
  "long_coverage_subtable =
     [0, 1, 0, 18, 0, 4, 0, 0, 0, 2, 0, 14, 0, 16,
      0, 9,
      0, 0,
      0, 1, 0, 3, 0, 5, 0, 6, 0, 7]"

text \<open>
  A pair adjustment subtable of format 2 with the supported value formats: class
  definitions at offsets 20 and 30, two classes for the first glyph and one for the
  second, the matrix \<open>[[-10], [-20]]\<close> at offset 16; the first class definition has
  format 1 (glyphs 5 and 6 in the classes 0 and 1), the second has format 2 (glyph 9
  in class 0); coverage at offset 40: glyphs 5 and 6.
\<close>

definition class_subtable :: "byte list" where
  "class_subtable =
     [0, 2, 0, 40, 0, 4, 0, 0, 0, 20, 0, 30, 0, 2, 0, 1,
      0xFF, 0xF6, 0xFF, 0xEC,
      0, 1, 0, 5, 0, 2, 0, 0, 0, 1,
      0, 2, 0, 1, 0, 9, 0, 9, 0, 0,
      0, 1, 0, 2, 0, 5, 0, 6]"

definition class_kerns :: classKerns where
  "class_kerns =
     \<lparr>coverage = [(5, ()), (6, ())], class1 = [(5, 0), (6, 1)], class2 = [(9, 0)],
      numClass2 = 1, kerns = [0xFFF6, 0xFFEC]\<rparr>"

text \<open>
  A font with a parsed \<open>GPOS\<close> table holding that subtable, and a \<open>kern\<close> table.
\<close>

definition class_gpos_font :: Font where
  "class_gpos_font =
     \<lparr>scalerType = 0,
      tables =
        [(TagGpos,
          \<lparr>s_tag = TagGpos,
           s_table = Some (LayoutTable (layout_of class_subtable)),
           s_offset = 0, s_length = 0, s_zLength = 0\<rparr>),
         (tagKern, unparsed_section tagKern)]\<rparr>"

text \<open>
  A double in which every collaborator succeeds and \<open>findTableBuffer\<close>, which only
  the legacy \<open>kern\<close> source calls here, counts its calls in the world.
\<close>

definition buffer_counting_double :: "(nat, nat) collaborators" where
  "buffer_counting_double =
     \<lparr>parseTable = (\<lambda>s w. (Ok (LayoutTable \<lparr>Lookups = []\<rparr>), w)),
      findTableBuffer = (\<lambda>s w. (Ok [], Suc w)),
      parseKernTable = (\<lambda>b. Ok 7)\<rparr>"

text \<open>
  A subtable of format 2 that declares one class for each glyph and a matrix of one
  cell, while its class definition (offset 18, format 1, used for both glyphs) puts
  glyph 5 in class 7. Coverage at offset 26: glyph 5.
\<close>

definition unbounded_class_subtable :: "byte list" where
  "unbounded_class_subtable =
     [0, 2, 0, 26, 0, 4, 0, 0, 0, 18, 0, 18, 0, 1, 0, 1,
      0xFF, 0xF6,
      0, 1, 0, 5, 0, 1, 0, 7,
      0, 1, 0, 1, 0, 5]"

definition unbounded_class_kerns :: classKerns where
  "unbounded_class_kerns =
     \<lparr>coverage = [(5, ())], class1 = [(5, 7)], class2 = [(5, 7)],
      numClass2 = 1, kerns = [0xFFF6]\<rparr>"

text \<open>
  A subtable of format 2 that declares two classes for each glyph and the matrix
  \<open>[[1, 2], [3, 4]]\<close> at offset 16. The first class definition (offset 24, format 1)
  puts glyph 5 in class 0; the second (offset 32, format 1) puts glyph 9 in class 3.
  Coverage at offset 40: glyph 5.
\<close>

definition aliasing_class_subtable :: "byte list" where
  "aliasing_class_subtable =
     [0, 2, 0, 40, 0, 4, 0, 0, 0, 24, 0, 32, 0, 2, 0, 2,
      0, 1, 0, 2, 0, 3, 0, 4,
      0, 1, 0, 5, 0, 1, 0, 0,
      0, 1, 0, 9, 0, 1, 0, 3,
      0, 1, 0, 1, 0, 5]"

definition aliasing_class_kerns :: classKerns where
  "aliasing_class_kerns =
     \<lparr>coverage = [(5, ())], class1 = [(5, 0)], class2 = [(9, 3)],
      numClass2 = 2, kerns = [1, 2, 3, 4]\<rparr>"

text \<open>
  A pair adjustment subtable whose coverage (offset 4, format 2) has the one range
  from glyph 0 to glyph \<open>0xFFFF\<close>.
\<close>

definition full_range_coverage_subtable :: "byte list" where
  "full_range_coverage_subtable =
     [0, 1, 0, 4,
      0, 2, 0, 1, 0, 0, 0xFF, 0xFF, 0, 0]"

text \<open>
  A pair adjustment subtable of format 2 with the supported value formats whose
  class definition (offset 16, format 2, used for both glyphs) has the one range
  from glyph 0 to glyph \<open>0xFFFF\<close>, class 1. Coverage at offset 26: glyph 5.
\<close>

definition full_range_classdef_subtable :: "byte list" where
  "full_range_classdef_subtable =
     [0, 2, 0, 26, 0, 4, 0, 0, 0, 16, 0, 16, 0, 0, 0, 0,
      0, 2, 0, 1, 0, 0, 0xFF, 0xFF, 0, 1,
      0, 1, 0, 1, 0, 5]"

section \<open>Cells of the class matrix\<close>

text \<open>
  Entry \<open>k\<close> of \<open>kerns\<close> holds the two bytes at offset \<open>2 * k\<close> of the buffer the
  matrix is read from.
\<close>

definition settled :: "byte list \<Rightarrow> 16 word list \<Rightarrow> nat \<Rightarrow> bool" where
  "settled buf ks k = (k < length ks \<and> be_Uint16 buf (k * 2) = Ok (ks ! k))"

section \<open>Properties\<close>

lemma and_then_opt_Ok [simp]: "and_then_opt (Ok x) f = f x"
  by (simp add: and_then_opt_def)

lemma and_then_Ok [simp]: "and_then (Ok x) f = f x"
  by (simp add: and_then_def)


subsection \<open>Coverage formats\<close>




subsection \<open>The table cache\<close>

lemma Table_cached:
  "cached font tg = Some t \<Longrightarrow> Table env tg (font, w) = (Ok t, (font, w))"
  by (auto simp: Table_def cached_def split: option.splits)

lemma Table_Ok_cached:
  assumes "Table env tg (font, w) = (Ok t, (font', w'))"
  shows "cached font' tg = Some t"
  using assms
  by (auto simp: Table_def cached_def update_conv' split: option.splits prod.splits result.splits)

lemma Table_keeps_cached:
  assumes "cached font tg = Some t"
  shows "cached (fst (snd (Table env tg' (font, w)))) tg = Some t"
  using assms
  by (auto simp: Table_def cached_def update_conv' split: option.splits prod.splits result.splits)

lemma Table_calls_keeps_cached:
  "cached (fst st) tg = Some t \<Longrightarrow> cached (fst (Table_calls env tgs st)) tg = Some t"
proof (induction tgs arbitrary: st)
  case Nil
  then show ?case by simp
next
  case (Cons a tgs)
  obtain font w where st: "st = (font, w)" by (cases st)
  from Cons.prems st have "cached (fst (snd (Table env a st))) tg = Some t"
    using Table_keeps_cached by simp
  then show ?case using Cons.IH by simp
qed

text \<open>
  C7, as the code has it: once a call \<open>Table(tag)\<close> has succeeded with the table
  \<open>t\<close>, then after any further calls of \<open>Table\<close>, for this tag or others, a call
  \<open>Table(tag)\<close> returns \<open>t\<close> again and changes neither the font nor the world: the
  decode is not run again.
\<close>

theorem Table_cached_after_success:
  assumes "Table env tg st = (Ok t, st1)"
  shows "Table env tg (Table_calls env tgs st1) = (Ok t, Table_calls env tgs st1)"
proof -
  obtain font w where st: "st = (font, w)" by (cases st)
  obtain font1 w1 where st1: "st1 = (font1, w1)" by (cases st1)
  from assms st st1 have "cached (fst st1) tg = Some t"
    using Table_Ok_cached by simp
  then have "cached (fst (Table_calls env tgs st1)) tg = Some t"
    by (rule Table_calls_keeps_cached)
  then show ?thesis
    using Table_cached [of "fst (Table_calls env tgs st1)" tg t env "snd (Table_calls env tgs st1)"]
    by simp
qed

theorem Table_cached_after_success_witness:
  "Table counting_double TagGpos (unparsed_font, 0)
     = (Ok (LayoutTable \<lparr>Lookups = []\<rparr>), (parsed_font, 1))
   \<and> Table counting_double TagGpos (Table_calls counting_double [tagKern, TagGpos] (parsed_font, 1))
     = (Ok (LayoutTable \<lparr>Lookups = []\<rparr>), (parsed_font, 1))"
proof -
  have first: "Table counting_double TagGpos (unparsed_font, 0)
      = (Ok (LayoutTable \<lparr>Lookups = []\<rparr>), (parsed_font, 1))"
    by code_simp
  have later: "Table_calls counting_double [tagKern, TagGpos] (parsed_font, 1) = (parsed_font, 1)"
    by code_simp
  show ?thesis
    using Table_cached_after_success [OF first, of "[tagKern, TagGpos]"] first later by simp
qed

text \<open>
  C7 as stated fails: with a decoder that fails, two calls of \<open>Table\<close> for one tag
  of one font run the decoder twice (the world counts the decodes).
\<close>

theorem Table_decodes_twice_counterexample:
  "Table failing_double TagGpos (unparsed_font, 0) = (Err (OtherError 1), (unparsed_font, 1))
   \<and> Table failing_double TagGpos (unparsed_font, 1) = (Err (OtherError 1), (unparsed_font, 2))"
  by code_simp

text \<open>
  C8: when \<open>Table(tag)\<close> returns an error, the font is unchanged. For an absent tag
  the error is \<open>ErrMissingTable\<close> and nothing was decoded. For a present tag the
  cache slot was and stays empty, the error is the decoder's, and the next call, in
  any world \<open>w2\<close>, runs the decoder again: it returns what the decoder returns there.
\<close>

theorem Table_failure_not_cached:
  assumes "Table env tg (font, w) = (Err e, (font', w'))"
  shows "font' = font \<and>
         (case map_of (tables font) tg of
            None \<Rightarrow> e = MissingTable \<and> w' = w
          | Some s \<Rightarrow>
              s_table s = None \<and> parseTable env s w = (Err e, w') \<and>
              (\<forall>w2. fst (Table env tg (font', w2)) = fst (parseTable env s w2)
                  \<and> snd (snd (Table env tg (font', w2))) = snd (parseTable env s w2)))"
  using assms
  by (auto simp: Table_def split: option.splits prod.splits result.splits)

theorem Table_failure_not_cached_witness:
  "Table failing_double TagGpos (unparsed_font, 0) = (Err (OtherError 1), (unparsed_font, 1))
   \<and> cached unparsed_font TagGpos = None
   \<and> fst (Table failing_double TagGpos (unparsed_font, 5)) = Err (OtherError 1)
   \<and> snd (snd (Table failing_double TagGpos (unparsed_font, 5))) = 6"
proof -
  have fails: "Table failing_double TagGpos (unparsed_font, 0)
      = (Err (OtherError 1), (unparsed_font, 1))"
    by code_simp
  have slot: "map_of (tables unparsed_font) TagGpos = Some (unparsed_section TagGpos)"
    by (simp add: unparsed_font_def)
  have dec: "parseTable failing_double (unparsed_section TagGpos) 5 = (Err (OtherError 1), 6)"
    by (simp add: failing_double_def)
  have "cached unparsed_font TagGpos = None"
    by (simp add: cached_def slot unparsed_section_def)
  then show ?thesis
    using Table_failure_not_cached [OF fails] fails slot dec by simp
qed

subsection \<open>The kerning resolver\<close>

text \<open>
  C1, as the code has it: \<open>KernTable\<close> asks the second source when, and only when,
  the first returns an error, whatever the error is. After an error of the first
  source it returns what the second source returns; every error of \<open>parseKern\<close> on
  the \<open>GPOS\<close> table is such an error of the \<open>GPOS\<close> source. When the first source
  succeeds, its result is returned with the state the first source left: the second
  source is not asked.
\<close>

theorem KernTable_falls_back_on_any_error:
  "(gposKerning env st = Some (Err e, st1) \<longrightarrow> KernTable env False st = Some (kernKerning env st1))
   \<and> (kernKerning env st = (Err e', st2) \<longrightarrow> KernTable env True st = gposKerning env st2)
   \<and> (GposTable env st = (Ok gpos, st1) \<and> parseKern gpos = Some (Err e)
        \<longrightarrow> gposKerning env st = Some (Err e, st1))
   \<and> (gposKerning env st = Some (Ok k, st3) \<longrightarrow> KernTable env False st = Some (Ok k, st3))
   \<and> (kernKerning env st = (Ok k', st4) \<longrightarrow> KernTable env True st = Some (Ok k', st4))"
  by (simp add: KernTable_def gposKerning_def)

theorem KernTable_falls_back_on_any_error_witness:
  "GposTable failing_kern_double (malformed_gpos_font, 0)
     = (Ok (layout_of truncated_subtable), (malformed_gpos_font, 0))
   \<and> parseKern (layout_of truncated_subtable) = Some (Err InvalidGPOSKern)
   \<and> gposKerning failing_kern_double (malformed_gpos_font, 0)
     = Some (Err InvalidGPOSKern, (malformed_gpos_font, 0))
   \<and> kernKerning failing_kern_double (malformed_gpos_font, 0)
     = (Err (OtherError 2), (malformed_gpos_font, 0))
   \<and> KernTable failing_kern_double False (malformed_gpos_font, 0)
     = Some (Err (OtherError 2), (malformed_gpos_font, 0))
   \<and> KernTable failing_kern_double True (malformed_gpos_font, 0)
     = Some (Err InvalidGPOSKern, (malformed_gpos_font, 0))
   \<and> gposKerning buffer_counting_double (class_gpos_font, 0)
     = Some (Ok (GposKerns [SimpleKerns [], ClassKerns class_kerns]), (class_gpos_font, 0))
   \<and> kernKerning buffer_counting_double (class_gpos_font, 0)
     = (Ok (LegacyKerns 7), (class_gpos_font, 1))
   \<and> KernTable buffer_counting_double False (class_gpos_font, 0)
     = Some (Ok (GposKerns [SimpleKerns [], ClassKerns class_kerns]), (class_gpos_font, 0))
   \<and> KernTable buffer_counting_double True (class_gpos_font, 0)
     = Some (Ok (LegacyKerns 7), (class_gpos_font, 1))"
proof -
  have t: "GposTable failing_kern_double (malformed_gpos_font, 0)
      = (Ok (layout_of truncated_subtable), (malformed_gpos_font, 0))"
    by code_simp
  have p: "parseKern (layout_of truncated_subtable) = Some (Err InvalidGPOSKern)"
    by code_simp
  have k: "kernKerning failing_kern_double (malformed_gpos_font, 0)
      = (Err (OtherError 2), (malformed_gpos_font, 0))"
    by code_simp
  have g': "gposKerning buffer_counting_double (class_gpos_font, 0)
      = Some (Ok (GposKerns [SimpleKerns [], ClassKerns class_kerns]), (class_gpos_font, 0))"
    by code_simp
  have k': "kernKerning buffer_counting_double (class_gpos_font, 0)
      = (Ok (LegacyKerns 7), (class_gpos_font, 1))"
    by code_simp
  have failing:
    "gposKerning failing_kern_double (malformed_gpos_font, 0)
       = Some (Err InvalidGPOSKern, (malformed_gpos_font, 0))
     \<and> KernTable failing_kern_double False (malformed_gpos_font, 0)
       = Some (Err (OtherError 2), (malformed_gpos_font, 0))
     \<and> KernTable failing_kern_double True (malformed_gpos_font, 0)
       = Some (Err InvalidGPOSKern, (malformed_gpos_font, 0))"
    using KernTable_falls_back_on_any_error
      [of failing_kern_double "(malformed_gpos_font, 0)" InvalidGPOSKern "(malformed_gpos_font, 0)"
          "OtherError 2" "(malformed_gpos_font, 0)" "layout_of truncated_subtable"]
      t p k
    by simp
  have succeeding:
    "KernTable buffer_counting_double False (class_gpos_font, 0)
       = Some (Ok (GposKerns [SimpleKerns [], ClassKerns class_kerns]), (class_gpos_font, 0))
     \<and> KernTable buffer_counting_double True (class_gpos_font, 0)
       = Some (Ok (LegacyKerns 7), (class_gpos_font, 1))"
    using KernTable_falls_back_on_any_error
      [of buffer_counting_double "(class_gpos_font, 0)" _ _ _ _ _
          "GposKerns [SimpleKerns [], ClassKerns class_kerns]" "(class_gpos_font, 0)"
          "LegacyKerns 7" "(class_gpos_font, 1)"]
      g' k'
    by simp
  show ?thesis using t p k g' k' failing succeeding by simp
qed

text \<open>
  C1 as stated fails: the \<open>GPOS\<close> source starts decoding and fails on a truncated
  subtable with \<open>errInvalidGPOSKern\<close>; \<open>KernTable(false)\<close> does not return that
  error, it returns the legacy kern table.
\<close>

theorem KernTable_malformed_gpos_counterexample:
  "gposKerning failing_double (malformed_gpos_font, 0)
     = Some (Err InvalidGPOSKern, (malformed_gpos_font, 0))
   \<and> KernTable failing_double False (malformed_gpos_font, 0)
     = Some (Ok (LegacyKerns 7), (malformed_gpos_font, 0))"
  by code_simp

subsection \<open>Value formats that are not supported\<close>

text \<open>
  C5 at a concrete layout: its only pair adjustment subtable has format 2 and value
  formats that are not supported. \<open>parsePairPosFormat2\<close> returns the zero
  \<open>classKerns\<close> and no error; \<open>parseKern\<close> appends it, so the result has two slots
  and \<open>parseKern\<close> succeeds. The same header as format 1 gives the error.
\<close>

theorem parseKern_gated_format2:
  "parsePairPosFormat2 gated_format2_subtable [5] = Some (Ok classKerns_zero)
   \<and> parseKern (layout_of gated_format2_subtable)
       = Some (Ok [SimpleKerns [], ClassKerns classKerns_zero])
   \<and> parseKern (layout_of gated_format1_subtable) = Some (Err MissingKerningInformation)"
  by code_simp

subsection \<open>PairSets that are not the last one\<close>

text \<open>
  C2 at a concrete subtable: the PairSet at offset 14 declares nine records in a
  buffer of 26 bytes; only the PairSet at the largest offset, 16, is checked. The
  third pass of the inner loop of \<open>fetchPairPosGlyph\<close> reads at offset 26 and
  panics.
\<close>

theorem parsePairPosFormat1_oversized_pairset:
  "fetchCoverage oversized_pairset_subtable 18 = Some (Ok [5, 6])
   \<and> parsePairPosFormat1 oversized_pairset_subtable [5, 6] [] = Panic
   \<and> parseKern (layout_of oversized_pairset_subtable) = Some Panic"
  by code_simp

text \<open>
  C10 at a concrete subtable: the coverage has three glyphs and the subtable two
  PairSets, and the first PairSet declares more records than the buffer holds. The
  parse panics in the first pass of the loop over the coverage, before the check
  \<open>idx >= num\<close> is reached for the third glyph.
\<close>

theorem parsePairPosFormat1_long_coverage:
  "fetchCoverage long_coverage_subtable 18 = Some (Ok [5, 6, 7])
   \<and> be_Uint16 long_coverage_subtable 8 = Ok 2
   \<and> parsePairPosFormat1 long_coverage_subtable [5, 6, 7] [] = Panic"
  by code_simp

subsection \<open>The loops over glyph ranges\<close>

text \<open>
  The loop \<open>for i := start; i <= end; i++\<close> over 16-bit glyph indices returns if and
  only if \<open>end\<close> is not \<open>0xFFFF\<close>: at \<open>0xFFFF\<close> the test \<open>i <= end\<close> holds for every \<open>i\<close>.
\<close>

lemma range_loop_Some_not_max:
  assumes "range_loop body i e acc = Some y"
  shows "e \<noteq> - 1"
proof (rule range_loop.raw_induct [where P = "\<lambda>body i e acc y. e \<noteq> - 1", OF _ assms])
  fix rl :: "(GlyphIndex \<Rightarrow> 'a \<Rightarrow> 'a) \<Rightarrow> GlyphIndex \<Rightarrow> GlyphIndex \<Rightarrow> 'a \<Rightarrow> 'a option"
    and body i e acc y
  assume IH: "\<And>body i e acc y. rl body i e acc = Some y \<Longrightarrow> e \<noteq> - 1"
    and step: "(if i \<le> e then rl body (i + 1) e (body i acc) else Some acc) = Some y"
  show "e \<noteq> - 1"
  proof (cases "i \<le> e")
    case True
    with step IH show ?thesis by simp
  next
    case False
    then show ?thesis using word_n1_ge [of i] by auto
  qed
qed

lemma range_loop_max: "range_loop body i 0xFFFF acc = None"
proof (cases "range_loop body i 0xFFFF acc")
  case None
  then show ?thesis .
next
  case (Some y)
  then have "(0xFFFF :: GlyphIndex) \<noteq> - 1" by (rule range_loop_Some_not_max)
  then show ?thesis by simp
qed

lemma unat_succ_below_max: "i < (- 1 :: GlyphIndex) \<Longrightarrow> unat (i + 1) = Suc (unat i)"
  by (metis add.commute add_neg_numeral_special(8) add_right_cancel unatSuc
    word_order.not_eq_extremum)

lemma range_loop_terminates:
  assumes "e \<noteq> 0xFFFF"
  shows "range_loop body i e acc = Some (fold body (map of_nat [unat i..<Suc (unat e)]) acc)"
  using assms
proof (induction "Suc (unat e) - unat i" arbitrary: i acc)
  case 0
  then have "\<not> i \<le> e" by (simp add: word_le_nat_alt)
  moreover from 0 have "[unat i..<Suc (unat e)] = []" by simp
  ultimately show ?case by (simp add: range_loop.simps)
next
  case (Suc n)
  then have le: "i \<le> e" by (simp add: word_le_nat_alt)
  have "(0xFFFF :: GlyphIndex) = - 1" by simp
  with Suc.prems have "e \<noteq> - 1" by metis
  then have "e < - 1" by (simp add: word_order.not_eq_extremum)
  with le have "i < - 1" by simp
  then have ui: "unat (i + 1) = Suc (unat i)" by (rule unat_succ_below_max)
  with Suc have "range_loop body (i + 1) e (body i acc)
      = Some (fold body (map of_nat [unat (i + 1)..<Suc (unat e)]) (body i acc))"
    by simp
  moreover have "[unat i..<Suc (unat e)] = unat i # [unat (i + 1)..<Suc (unat e)]"
    using le ui by (simp add: word_le_nat_alt upt_conv_Cons)
  ultimately show ?case using le by (subst range_loop.simps) simp
qed

lemma range_loop_returns_iff:
  "(\<exists>y. range_loop body i e acc = Some y) = (e \<noteq> 0xFFFF)"
  using range_loop_terminates [of e body i acc] range_loop_max [of body i acc] by auto

text \<open>
  C3 at two concrete subtables: a coverage range and a class range that end at glyph
  \<open>0xFFFF\<close>. The loops of \<open>coverageRanges.list\<close> and of \<open>class2.classIDs\<close> do not
  return, and neither does \<open>parseKern\<close>.
\<close>

theorem range_loops_do_not_return:
  "fetchCoverage full_range_coverage_subtable 4 = None
   \<and> parseKern (layout_of full_range_coverage_subtable) = None
   \<and> fetchCoverage full_range_classdef_subtable 26 = Some (Ok [5])
   \<and> parsePairPosFormat2 full_range_classdef_subtable [5] = None
   \<and> parseKern (layout_of full_range_classdef_subtable) = None"
proof -
  have cov: "fetchCoverage full_range_coverage_subtable 4 = None"
    by (simp add: fetchCoverage_def full_range_coverage_subtable_def fetchCoverageRange_def
        be_Uint16_def read_coverageRange_def coverageRanges_list_def range_loop_max)
  have cov': "fetchCoverage full_range_classdef_subtable 26 = Some (Ok [5])"
    by code_simp
  have cls: "parsePairPosFormat2 full_range_classdef_subtable [5] = None"
    by (simp add: parsePairPosFormat2_def full_range_classdef_subtable_def be_Uint16_def
        fetchClassLookup_def fetchClassLookupFormat2_def read_classRangeRecord_def
        fetchPairPosClass_def range_loop_max)
  have h1: "be_Uint16 full_range_coverage_subtable 0 = Ok 1 \<and> be_Uint16 full_range_coverage_subtable 2 = Ok 4"
    by code_simp
  have h2: "be_Uint16 full_range_classdef_subtable 0 = Ok 2 \<and> be_Uint16 full_range_classdef_subtable 2 = Ok 26"
    by code_simp
  have l1: "length full_range_coverage_subtable = 14" by (simp add: full_range_coverage_subtable_def)
  have l2: "length full_range_classdef_subtable = 32" by (simp add: full_range_classdef_subtable_def)
  have k1: "parseKern (layout_of full_range_coverage_subtable) = None"
    using cov h1 l1 by (simp add: parseKern_def layout_of_def parseKern_subtable_def opt_then_def)
  have k2: "parseKern (layout_of full_range_classdef_subtable) = None"
    using cov' cls h2 l2 by (simp add: parseKern_def layout_of_def parseKern_subtable_def opt_then_def)
  show ?thesis using cov cov' cls k1 k2 by simp
qed

subsection \<open>A coverage longer than the PairSet array\<close>

text \<open>
  With more covered glyphs than PairSets, \<open>fetchPairPosGlyph\<close> never succeeds and
  never reads a PairSet offset at an index \<open>idx >= num\<close>: it returns
  \<open>errInvalidGPOSKern\<close>, unless the PairSet of an earlier glyph made it panic.
\<close>

lemma pairValue_loop_no_other_error:
  "pairValue_loop glyphs offset hb is out = Err e \<Longrightarrow> False"
  by (induction "is" arbitrary: out) (auto simp: be_Uint16_def split: result.splits if_splits)

lemma fetchPairPosGlyph_loop_long:
  assumes "n \<le> num" and "num < n + length cov"
  shows "fetchPairPosGlyph_loop (List.enumerate n cov) num glyphs out = Err InvalidGPOSKern
         \<or> fetchPairPosGlyph_loop (List.enumerate n cov) num glyphs out = Panic"
  using assms
proof (induction cov arbitrary: n out)
  case Nil
  then show ?case by simp
next
  case (Cons a cov)
  show ?case
  proof (cases "n = num")
    case True
    then show ?thesis by simp
  next
    case False
    with Cons.prems have "Suc n \<le> num" and "num < Suc n + length cov" by simp_all
    then have IH: "\<And>out. fetchPairPosGlyph_loop (List.enumerate (Suc n) cov) num glyphs out = Err InvalidGPOSKern
         \<or> fetchPairPosGlyph_loop (List.enumerate (Suc n) cov) num glyphs out = Panic"
      by (rule Cons.IH)
    show ?thesis
      using IH Cons.prems(1) False
      by (auto simp: Let_def be_Uint16_def split: result.splits if_splits dest: pairValue_loop_no_other_error)
  qed
qed

lemma fetchPairPosGlyph_long_coverage:
  "num < length cov \<Longrightarrow>
   fetchPairPosGlyph cov num glyphs out = Err InvalidGPOSKern
   \<or> fetchPairPosGlyph cov num glyphs out = Panic"
  using fetchPairPosGlyph_loop_long [of 0 num cov glyphs out] by (simp add: fetchPairPosGlyph_def)

lemma lastPairSetOffset_loop_no_error:
  "lastPairSetOffset_loop buf ns l = Err e \<Longrightarrow> False"
  by (induction ns arbitrary: l) (auto simp: be_Uint16_def Let_def split: result.splits if_splits)

lemma parsePairPosFormat1_long_coverage_fails:
  assumes "be_Uint16 buf 4 = Ok 4" and "be_Uint16 buf 6 = Ok 0"
    and "be_Uint16 buf 8 = Ok n" and "unat n < length cov"
  shows "parsePairPosFormat1 buf cov out = Err InvalidGPOSKern
         \<or> parsePairPosFormat1 buf cov out = Panic"
proof -
  have "fetchPairPosGlyph cov (unat n) buf out = Err InvalidGPOSKern
        \<or> fetchPairPosGlyph cov (unat n) buf out = Panic"
    using assms(4) by (rule fetchPairPosGlyph_long_coverage)
  then show ?thesis
    using assms(1-3)
    by (auto simp: parsePairPosFormat1_def and_then_def Let_def be_Uint16_def
        split: result.splits if_splits dest: lastPairSetOffset_loop_no_error)
qed

subsection \<open>The class matrix\<close>

lemma kerns_inner_loop_length:
  "kerns_inner_loop buf num2 i js ks = Ok ks' \<Longrightarrow> length ks' = length ks"
  by (induction js arbitrary: ks) (auto simp: Let_def split: if_splits result.splits)

lemma kerns_inner_loop_keeps:
  "kerns_inner_loop buf num2 i js ks = Ok ks' \<Longrightarrow> settled buf ks k \<Longrightarrow> settled buf ks' k"
proof (induction js arbitrary: ks)
  case Nil
  then show ?case by simp
next
  case (Cons j js)
  from Cons.prems(1) obtain v where
    v: "be_Uint16 buf ((j + i * num2) * 2) = Ok v"
    and rest: "kerns_inner_loop buf num2 i js (ks[j + i * num2 := v]) = Ok ks'"
    by (auto simp: Let_def split: if_splits result.splits)
  have "settled buf (ks[j + i * num2 := v]) k"
    using Cons.prems(2) v by (cases "k = j + i * num2") (auto simp: settled_def)
  with rest show ?case by (rule Cons.IH)
qed

lemma kerns_inner_loop_settles:
  "kerns_inner_loop buf num2 i js ks = Ok ks' \<Longrightarrow> j \<in> set js \<Longrightarrow> settled buf ks' (j + i * num2)"
proof (induction js arbitrary: ks)
  case Nil
  then show ?case by simp
next
  case (Cons j' js)
  from Cons.prems(1) obtain v where
    inb: "j' + i * num2 < length ks"
    and v: "be_Uint16 buf ((j' + i * num2) * 2) = Ok v"
    and rest: "kerns_inner_loop buf num2 i js (ks[j' + i * num2 := v]) = Ok ks'"
    by (auto simp: Let_def split: if_splits result.splits)
  show ?case
  proof (cases "j \<in> set js")
    case True
    with rest show ?thesis by (rule Cons.IH)
  next
    case False
    with Cons.prems(2) have "j = j'" by simp
    moreover have "settled buf (ks[j' + i * num2 := v]) (j' + i * num2)"
      using inb v by (simp add: settled_def)
    ultimately show ?thesis using kerns_inner_loop_keeps [OF rest] by simp
  qed
qed

lemma kerns_outer_loop_length:
  "kerns_outer_loop buf num1 num2 is ks = Ok ks' \<Longrightarrow> length ks' = length ks"
  by (induction "is" arbitrary: ks) (auto split: result.splits dest: kerns_inner_loop_length)

lemma kerns_outer_loop_keeps:
  "kerns_outer_loop buf num1 num2 is ks = Ok ks' \<Longrightarrow> settled buf ks k \<Longrightarrow> settled buf ks' k"
  by (induction "is" arbitrary: ks) (auto split: result.splits dest: kerns_inner_loop_keeps)

lemma kerns_outer_loop_settles:
  "kerns_outer_loop buf num1 num2 is ks = Ok ks' \<Longrightarrow> i \<in> set is \<Longrightarrow> j < num2
   \<Longrightarrow> settled buf ks' (j + i * num2)"
proof (induction "is" arbitrary: ks)
  case Nil
  then show ?case by simp
next
  case (Cons i' "is")
  from Cons.prems(1) obtain ks1 where
    row: "kerns_inner_loop buf num2 i' [0..<num2] ks = Ok ks1"
    and rest: "kerns_outer_loop buf num1 num2 is ks1 = Ok ks'"
    by (auto split: result.splits)
  show ?case
  proof (cases "i \<in> set is")
    case True
    show ?thesis by (rule Cons.IH [OF rest True Cons.prems(3)])
  next
    case False
    with Cons.prems(2) have "i = i'" by simp
    moreover have "settled buf ks1 (j + i' * num2)"
      using kerns_inner_loop_settles [OF row, of j] Cons.prems(3) by simp
    ultimately show ?thesis using kerns_outer_loop_keeps [OF rest] by simp
  qed
qed

lemma map_found_coverage_loop:
  "map_found (coverage_loop cov m) g = (g \<in> set cov \<or> map_found m g)"
  by (induction cov arbitrary: m) (auto simp: map_found_def update_conv' split: option.splits)

lemma fetchPairPosClass_Ok:
  assumes "fetchPairPosClass buf cov num1 num2 cdef1 cdef2 = Some (Ok ck)"
  shows "numClass2 ck = num2 \<and> length (kerns ck) = num1 * num2
         \<and> (\<forall>g. map_found (coverage ck) g = (g \<in> set cov))
         \<and> (\<forall>r c. r < num1 \<and> c < num2 \<longrightarrow> settled buf (kerns ck) (c + r * num2))"
proof -
  from assms obtain ks ids1 ids2 where
    ks: "kerns_outer_loop buf num1 num2 [0..<num1] (replicate (num1 * num2) 0) = Ok ks"
    and ck: "ck = \<lparr>coverage = coverage_loop cov [], class1 = ids1, class2 = ids2,
                   numClass2 = num2, kerns = ks\<rparr>"
    by (auto simp: fetchPairPosClass_def and_then_opt_def Let_def split: if_splits result.splits option.splits)
  have "length ks = num1 * num2"
    using kerns_outer_loop_length [OF ks] by simp
  moreover have "\<forall>r c. r < num1 \<and> c < num2 \<longrightarrow> settled buf ks (c + r * num2)"
    using kerns_outer_loop_settles [OF ks] by simp
  moreover have "\<forall>g. map_found (coverage_loop cov []) g = (g \<in> set cov)"
    by (simp add: map_found_coverage_loop) (simp add: map_found_def)
  ultimately show ?thesis using ck by simp
qed

lemma parsePairPosFormat2_Ok:
  assumes "parsePairPosFormat2 buf cov = Some (Ok ck)"
    and "be_Uint16 buf 4 = Ok 4" and "be_Uint16 buf 6 = Ok 0"
    and "be_Uint16 buf 12 = Ok n1" and "be_Uint16 buf 14 = Ok n2"
  shows "\<exists>cdef1 cdef2. fetchPairPosClass (drop 16 buf) cov (unat n1) (unat n2) cdef1 cdef2 = Some (Ok ck)"
  using assms
  by (auto simp: parsePairPosFormat2_def and_then_opt_def split: if_splits result.splits)

lemma be_Uint16_drop_Ok:
  "be_Uint16 (drop n b) k = Ok v \<Longrightarrow> be_Uint16 b (n + k) = Ok v"
  by (auto simp: be_Uint16_def add.commute split: if_splits)

lemma cell_index_bound:
  fixes r c n1 n2 :: nat
  assumes "r < n1" and "c < n2"
  shows "c + r * n2 < n1 * n2"
proof -
  have "c + r * n2 < Suc r * n2" using assms(2) by simp
  also have "\<dots> \<le> n1 * n2" using assms(1) by (intro mult_le_mono1) simp
  finally show ?thesis .
qed

lemma parsePairPosFormat2_gated:
  assumes "parsePairPosFormat2 buf cov = Some (Ok ck)"
    and "\<not> (be_Uint16 buf 4 = Ok 4 \<and> be_Uint16 buf 6 = Ok 0)"
  shows "ck = classKerns_zero"
  using assms
  by (auto simp: parsePairPosFormat2_def and_then_opt_def split: if_splits result.splits)

text \<open>
  What holds of the class matrix: for a subtable of format 2 with the supported value
  formats that parses, \<open>kerns\<close> has \<open>class1Count * class2Count\<close> entries and the stride
  \<open>numClass2\<close> is \<open>class2Count\<close>; for a pair of glyphs whose class ids are below the two
  counts the index \<open>class2[right] + class1[left] * numClass2\<close> is below \<open>len(kerns)\<close>.
\<close>

lemma class_matrix_index_in_bounds:
  assumes "parsePairPosFormat2 buf cov = Some (Ok ck)"
    and "be_Uint16 buf 4 = Ok 4" and "be_Uint16 buf 6 = Ok 0"
    and "be_Uint16 buf 12 = Ok n1" and "be_Uint16 buf 14 = Ok n2"
  shows "numClass2 ck = unat n2 \<and> length (kerns ck) = unat n1 * unat n2
         \<and> (map_index (class1 ck) left < unat n1 \<and> map_index (class2 ck) right < unat n2
              \<longrightarrow> map_index (class2 ck) right + map_index (class1 ck) left * numClass2 ck
                    < length (kerns ck))"
proof -
  from parsePairPosFormat2_Ok [OF assms] obtain cdef1 cdef2 where
    "fetchPairPosClass (drop 16 buf) cov (unat n1) (unat n2) cdef1 cdef2 = Some (Ok ck)"
    by blast
  from fetchPairPosClass_Ok [OF this]
  have "numClass2 ck = unat n2" and "length (kerns ck) = unat n1 * unat n2"
    by simp_all
  then show ?thesis using cell_index_bound by simp
qed

text \<open>
  C4 at a concrete subtable: it parses, declares one class for each glyph
  (\<open>class1Count = class2Count = 1\<close>), and its class definition gives glyph 5 the class
  7. The class maps of the parsed source hold 7, which is not below the counts, and
  the matrix index of the pair (5, 5) is 14 in a \<open>kerns\<close> of one entry.
\<close>

theorem class_ids_exceed_counts:
  "parsePairPosFormat2 unbounded_class_subtable [5] = Some (Ok unbounded_class_kerns)
   \<and> be_Uint16 unbounded_class_subtable 12 = Ok 1
   \<and> be_Uint16 unbounded_class_subtable 14 = Ok 1
   \<and> map_index (class1 unbounded_class_kerns) 5 = 7
   \<and> map_index (class2 unbounded_class_kerns) 5 = 7
   \<and> map_index (class2 unbounded_class_kerns) 5
        + map_index (class1 unbounded_class_kerns) 5 * numClass2 unbounded_class_kerns = 14
   \<and> length (kerns unbounded_class_kerns) = 1"
  by code_simp

text \<open>
  What holds of \<open>KernPair\<close>: for a subtable of format 2 that parses, it returns
  \<open>(0, false)\<close> for a left glyph outside the coverage map of the source; for a left
  glyph inside it and class ids below \<open>class1Count\<close> and \<open>class2Count\<close> it returns
  \<open>true\<close> with the cell of row \<open>class1[left]\<close> and column \<open>class2[right]\<close> of the
  row-major matrix that starts at byte 16 of the subtable. With the supported value
  formats the coverage map holds exactly the glyphs of the decoded coverage. A glyph
  with no entry in a class map has class 0.
\<close>

lemma KernPair_class_source:
  assumes "parsePairPosFormat2 buf cov = Some (Ok ck)"
    and "be_Uint16 buf 12 = Ok n1" and "be_Uint16 buf 14 = Ok n2"
  shows "(\<not> map_found (coverage ck) left \<longrightarrow> KernPair ck left right = Ok (0, False))
         \<and> (map_found (coverage ck) left
              \<and> map_index (class1 ck) left < unat n1 \<and> map_index (class2 ck) right < unat n2
            \<longrightarrow> (\<exists>v. be_Uint16 buf
                        (16 + 2 * (map_index (class1 ck) left * unat n2 + map_index (class2 ck) right))
                      = Ok v
                    \<and> KernPair ck left right = Ok (v, True)))
         \<and> (be_Uint16 buf 4 = Ok 4 \<and> be_Uint16 buf 6 = Ok 0
            \<longrightarrow> map_found (coverage ck) left = (left \<in> set cov))
         \<and> (map_of (class1 ck) left = None \<longrightarrow> map_index (class1 ck) left = 0)
         \<and> (map_of (class2 ck) right = None \<longrightarrow> map_index (class2 ck) right = 0)"
proof (cases "be_Uint16 buf 4 = Ok 4 \<and> be_Uint16 buf 6 = Ok 0")
  case False
  with assms(1) have "ck = classKerns_zero" by (rule parsePairPosFormat2_gated)
  then have "\<not> map_found (coverage ck) left"
    by (simp add: classKerns_zero_def map_found_def)
  with False show ?thesis by (auto simp add: KernPair_def map_index_def)
next
  case True
  then have f1: "be_Uint16 buf 4 = Ok 4" and f2: "be_Uint16 buf 6 = Ok 0" by simp_all
  from parsePairPosFormat2_Ok [OF assms(1) f1 f2 assms(2,3)] obtain cdef1 cdef2 where
    "fetchPairPosClass (drop 16 buf) cov (unat n1) (unat n2) cdef1 cdef2 = Some (Ok ck)"
    by blast
  from fetchPairPosClass_Ok [OF this]
  have stride: "numClass2 ck = unat n2"
    and len: "length (kerns ck) = unat n1 * unat n2"
    and cov: "\<And>g. map_found (coverage ck) g = (g \<in> set cov)"
    and cells: "\<And>r c. r < unat n1 \<Longrightarrow> c < unat n2
                 \<Longrightarrow> settled (drop 16 buf) (kerns ck) (c + r * unat n2)"
    by simp_all
  have "\<exists>v. be_Uint16 buf
              (16 + 2 * (map_index (class1 ck) left * unat n2 + map_index (class2 ck) right)) = Ok v
            \<and> KernPair ck left right = Ok (v, True)"
    if inside: "map_found (coverage ck) left"
      and r: "map_index (class1 ck) left < unat n1"
      and c: "map_index (class2 ck) right < unat n2"
  proof -
    let ?k = "map_index (class2 ck) right + map_index (class1 ck) left * unat n2"
    from cells [OF r c] have k: "?k < length (kerns ck)"
      and v: "be_Uint16 (drop 16 buf) (?k * 2) = Ok (kerns ck ! ?k)"
      by (simp_all add: settled_def)
    from be_Uint16_drop_Ok [OF v]
    have "be_Uint16 buf
            (16 + 2 * (map_index (class1 ck) left * unat n2 + map_index (class2 ck) right))
          = Ok (kerns ck ! ?k)"
      by (simp add: algebra_simps)
    moreover have "KernPair ck left right = Ok (kerns ck ! ?k, True)"
      using inside k stride by (simp add: KernPair_def Let_def)
    ultimately show ?thesis by blast
  qed
  then show ?thesis
    using cov by (simp add: KernPair_def map_index_def)
qed

text \<open>The class-based source of the spec's example, queried.\<close>

lemma KernPair_class_source_example:
  "parsePairPosFormat2 class_subtable [5, 6] = Some (Ok class_kerns)
   \<and> be_Uint16 class_subtable 4 = Ok 4 \<and> be_Uint16 class_subtable 6 = Ok 0
   \<and> be_Uint16 class_subtable 12 = Ok 2 \<and> be_Uint16 class_subtable 14 = Ok 1
   \<and> \<not> map_found (coverage class_kerns) 7
   \<and> KernPair class_kerns 7 9 = Ok (0, False)
   \<and> map_found (coverage class_kerns) 6
   \<and> map_index (class1 class_kerns) 6 = 1 \<and> map_index (class2 class_kerns) 9 = 0
   \<and> be_Uint16 class_subtable 18 = Ok 0xFFEC
   \<and> KernPair class_kerns 6 9 = Ok (0xFFEC, True)
   \<and> sint (0xFFEC :: 16 word) = - 20
   \<and> map_of (class1 class_kerns) 7 = None \<and> map_index (class1 class_kerns) 7 = 0
   \<and> map_of (class2 class_kerns) 10 = None \<and> map_index (class2 class_kerns) 10 = 0"
proof -
  have p: "parsePairPosFormat2 class_subtable [5, 6] = Some (Ok class_kerns)"
    by code_simp
  have f: "be_Uint16 class_subtable 4 = Ok 4" "be_Uint16 class_subtable 6 = Ok 0"
    by code_simp+
  have n1: "be_Uint16 class_subtable 12 = Ok 2" by code_simp
  have n2: "be_Uint16 class_subtable 14 = Ok 1" by code_simp
  have out: "\<not> map_found (coverage class_kerns) 7"
    by (simp add: map_found_def class_kerns_def)
  have ins: "map_found (coverage class_kerns) 6"
    by (simp add: map_found_def class_kerns_def)
  have ids: "map_index (class1 class_kerns) 6 = 1" "map_index (class2 class_kerns) 9 = 0"
    by (simp_all add: map_index_def class_kerns_def)
  have absent: "map_of (class1 class_kerns) 7 = None" "map_of (class2 class_kerns) 10 = None"
    by (simp_all add: class_kerns_def)
  have cell: "be_Uint16 class_subtable 18 = Ok 0xFFEC" by code_simp
  have val: "sint (0xFFEC :: 16 word) = - 20" by simp
  from KernPair_class_source [OF p n1 n2, of 7 9] out
  have a: "KernPair class_kerns 7 9 = Ok (0, False)" by simp
  from KernPair_class_source [OF p n1 n2, of 6 9] ins ids cell
  have b: "KernPair class_kerns 6 9 = Ok (0xFFEC, True)" by simp
  from KernPair_class_source [OF p n1 n2, of 7 10] absent
  have c: "map_index (class1 class_kerns) 7 = 0" "map_index (class2 class_kerns) 10 = 0" by simp_all
  show ?thesis using p f n1 n2 out ins ids cell val a b c absent by simp
qed

text \<open>
  C6 at two concrete subtables, each of which parses. In the first, glyph 5 is
  covered and has class 7 in a matrix of one cell: \<open>KernPair(5, 5)\<close> reports no value,
  it panics, the index 14 being outside \<open>kerns\<close>. In the second, the matrix is
  \<open>[[1, 2], [3, 4]]\<close>, glyph 5 is covered and has class 0, glyph 9 has class 3: row 0
  has no column 3, and \<open>KernPair(5, 9)\<close> reports a match with the value 4, the cell of
  row 1 and column 1.
\<close>

theorem KernPair_outside_matrix:
  "parsePairPosFormat2 unbounded_class_subtable [5] = Some (Ok unbounded_class_kerns)
   \<and> map_found (coverage unbounded_class_kerns) 5
   \<and> KernPair unbounded_class_kerns 5 5 = Panic
   \<and> parsePairPosFormat2 aliasing_class_subtable [5] = Some (Ok aliasing_class_kerns)
   \<and> be_Uint16 aliasing_class_subtable 12 = Ok 2
   \<and> be_Uint16 aliasing_class_subtable 14 = Ok 2
   \<and> map_found (coverage aliasing_class_kerns) 5
   \<and> map_index (class1 aliasing_class_kerns) 5 = 0
   \<and> map_index (class2 aliasing_class_kerns) 9 = 3
   \<and> KernPair aliasing_class_kerns 5 9 = Ok (4, True)
   \<and> be_Uint16 aliasing_class_subtable (16 + 2 * (1 * 2 + 1)) = Ok 4"
  by code_simp

end
